theory Spec2Isabelle
  imports Main "HOL-Library.Word"
begin

section \<open>The external collaborators of the auth service\<close>

text \<open>
  The auth service (the file that exports \<open>checkProfileExists\<close>, \<open>handleGoogleOAuth\<close>,
  \<open>handleOAuthCallback\<close>, \<open>handleEmailLogin\<close>, \<open>handleEmailSignup\<close>, \<open>handleSignOut\<close>,
  \<open>resendVerificationEmail\<close> and \<open>validateOAuthConfig\<close>) talks to three collaborators: the
  BaaS client SDK, the browser's \<open>localStorage\<close> and a timer. Each awaited SDK promise
  either resolves to an object \<open>{ data, error }\<close> or rejects; a rejection is what the
  \<open>catch (err)\<close> blocks of the source receive, and \<open>err.message\<close> is the string they read.
  Calls to the logging utility \<open>debug\<close> have no effect on results and are left out.
\<close>

datatype 'a outcome = Returns 'a | Throws string

datatype 'd sdk_result = SdkResult (sdk_data: 'd) (sdk_error: "string option")

text \<open>The columns selected from the \<open>profiles\<close> table: \<open>id, email, full_name\<close>.\<close>

record profile_row =
  row_id :: string
  row_email :: string
  row_full_name :: string

text \<open>Of a session the code reads \<open>session.user.email\<close> and \<open>session.user.id\<close>.\<close>

record session =
  user_id :: string
  user_email :: string

record oauth_data =
  oauth_provider :: string
  oauth_url :: "string option"

text \<open>The \<open>data\<close> of \<open>signInWithPassword\<close> and \<open>signUp\<close>: \<open>{ user, session }\<close>, each nullable.\<close>

record auth_data =
  ad_user_id :: "string option"
  ad_session :: "session option"

text \<open>
  Everything the operations do to the outside, in the order they do it: the SDK calls with
  their arguments, the accesses to \<open>localStorage\<close> with their keys, and the awaited timer
  with its delay in milliseconds.
\<close>

datatype event =
    ProfilesQuery string
  | SignInWithOAuth string
  | GetSession
  | SignOut
  | SignInWithPassword string string
  | SignUp string string string string
  | Resend string string
  | SetItem string string
  | GetItem string
  | RemoveItem string
  | SetTimeout nat

text \<open>
  The environment answers every SDK call. An answer may depend on everything that has
  happened before the call (the events so far), so two lookups of the same email may
  differ, as they do when a database trigger creates the profile in between.
\<close>

record env =
  origin :: string
  profiles_maybeSingle :: "event list \<Rightarrow> string \<Rightarrow> profile_row option sdk_result outcome"
  auth_signInWithOAuth :: "event list \<Rightarrow> string \<Rightarrow> oauth_data sdk_result outcome"
  auth_getSession :: "event list \<Rightarrow> session option sdk_result outcome"
  auth_signOut :: "event list \<Rightarrow> unit sdk_result outcome"
  auth_signInWithPassword :: "event list \<Rightarrow> string \<Rightarrow> string \<Rightarrow> auth_data sdk_result outcome"
  auth_signUp :: "event list \<Rightarrow> string \<Rightarrow> string \<Rightarrow> string \<Rightarrow> string \<Rightarrow> auth_data sdk_result outcome"
  auth_resend :: "event list \<Rightarrow> string \<Rightarrow> string \<Rightarrow> unit sdk_result outcome"

text \<open>The mutable world: the content of \<open>localStorage\<close> and the events so far.\<close>

record world =
  storage :: "string \<rightharpoonup> string"
  trace :: "event list"

definition emit :: "event \<Rightarrow> world \<Rightarrow> world" where
  "emit e w = w\<lparr>trace := trace w @ [e]\<rparr>"

definition setItem :: "string \<Rightarrow> string \<Rightarrow> world \<Rightarrow> world" where
  "setItem k v w = w\<lparr>storage := (storage w)(k \<mapsto> v), trace := trace w @ [SetItem k v]\<rparr>"

definition getItem :: "string \<Rightarrow> world \<Rightarrow> string option \<times> world" where
  "getItem k w = (storage w k, w\<lparr>trace := trace w @ [GetItem k]\<rparr>)"

definition removeItem :: "string \<Rightarrow> world \<Rightarrow> world" where
  "removeItem k w = w\<lparr>storage := (storage w)(k := None), trace := trace w @ [RemoveItem k]\<rparr>"

section \<open>The auth service\<close>

datatype AuthMode = Login | Signup

fun mode_string :: "AuthMode \<Rightarrow> string" where
  "mode_string Login = ''login''"
| "mode_string Signup = ''signup''"

text \<open>\<open>AuthResult.data\<close> has type \<open>any\<close>; the operations put one of three things there.\<close>

datatype payload = OAuthPayload oauth_data | SessionPayload session | AuthPayload auth_data

record AuthResult =
  success :: bool
  error :: "string option"
  requiresVerification :: "bool option"
  data :: "payload option"

record ProfileCheckResult =
  exists :: bool
  profile :: "profile_row option"
  check_error :: "string option"

text \<open>The result \<open>{ success: false, error: m }\<close>, which every error branch builds.\<close>

definition failure :: "string \<Rightarrow> AuthResult" where
  "failure m = \<lparr>success = False, error = Some m, requiresVerification = None, data = None\<rparr>"

definition succeeded :: "payload option \<Rightarrow> AuthResult" where
  "succeeded d = \<lparr>success = True, error = None, requiresVerification = None, data = d\<rparr>"

text \<open>
  \<open>checkProfileExists\<close>: one query; a returned error and a rejection both become
  \<open>exists: false\<close> with the message, so the function itself never rejects.
\<close>

definition checkProfileExists :: "env \<Rightarrow> string \<Rightarrow> world \<Rightarrow> ProfileCheckResult \<times> world" where
  "checkProfileExists ev email w =
     (let w1 = emit (ProfilesQuery email) w in
      case profiles_maybeSingle ev (trace w) email of
        Throws m \<Rightarrow> (\<lparr>exists = False, profile = None, check_error = Some m\<rparr>, w1)
      | Returns r \<Rightarrow>
          (case sdk_error r of
             Some e \<Rightarrow> (\<lparr>exists = False, profile = None, check_error = Some e\<rparr>, w1)
           | None \<Rightarrow>
               (\<lparr>exists = (case sdk_data r of None \<Rightarrow> False | Some row \<Rightarrow> True),
                 profile = sdk_data r, check_error = None\<rparr>, w1)))"

definition handleGoogleOAuth :: "env \<Rightarrow> AuthMode \<Rightarrow> world \<Rightarrow> AuthResult \<times> world" where
  "handleGoogleOAuth ev mode w =
     (let redirectTo = origin ev @ ''/auth/callback'';
          w1 = setItem ''oauth_mode'' (mode_string mode) w;
          w2 = emit (SignInWithOAuth redirectTo) w1
      in case auth_signInWithOAuth ev (trace w1) redirectTo of
           Throws m \<Rightarrow> (failure m, removeItem ''oauth_mode'' w2)
         | Returns r \<Rightarrow>
             (case sdk_error r of
                Some e \<Rightarrow> (failure e, removeItem ''oauth_mode'' w2)
              | None \<Rightarrow> (succeeded (Some (OAuthPayload (sdk_data r))), w2)))"

text \<open>\<open>localStorage.getItem('oauth_mode') as AuthMode || 'login'\<close>: null and the empty
  string are falsy.\<close>

definition authMode_of :: "string option \<Rightarrow> string" where
  "authMode_of stored =
     (case stored of None \<Rightarrow> ''login'' | Some s \<Rightarrow> if s = [] then ''login'' else s)"

definition handleOAuthCallback :: "env \<Rightarrow> world \<Rightarrow> AuthResult \<times> world" where
  "handleOAuthCallback ev w =
     (let w1 = emit GetSession w in
      case auth_getSession ev (trace w) of
        Throws m \<Rightarrow> (failure m, removeItem ''oauth_mode'' w1)
      | Returns r \<Rightarrow>
          (case sdk_error r of
             Some e \<Rightarrow> (failure e, w1)
           | None \<Rightarrow>
               (case sdk_data r of
                  None \<Rightarrow> (failure ''No session found. Please try again.'', w1)
                | Some sess \<Rightarrow>
                    (let userEmail = user_email sess;
                         (stored, w2) = getItem ''oauth_mode'' w1;
                         authMode = authMode_of stored;
                         w3 = removeItem ''oauth_mode'' w2;
                         (profileCheck, w4) = checkProfileExists ev userEmail w3
                     in if authMode = ''signup'' then
                          (if exists profileCheck then
                             (failure ''An account with this email already exists. Please log in instead.'', w4)
                           else
                             (let w5 = emit (SetTimeout 1000) w4;
                                  (verifyCheck, w6) = checkProfileExists ev userEmail w5
                              in if \<not> exists verifyCheck then
                                   (failure ''Failed to create user profile. Please try again.'', w6)
                                 else (succeeded (Some (SessionPayload sess)), w6)))
                        else if authMode = ''login'' then
                          (if \<not> exists profileCheck then
                             (let w5 = emit SignOut w4 in
                              case auth_signOut ev (trace w4) of
                                Throws m \<Rightarrow> (failure m, removeItem ''oauth_mode'' w5)
                              | Returns r' \<Rightarrow>
                                  (failure ''No account found with this email. Please sign up first.'', w5))
                           else (succeeded (Some (SessionPayload sess)), w4))
                        else (failure ''Invalid authentication mode'', w4)))))"

definition handleEmailLogin :: "env \<Rightarrow> string \<Rightarrow> string \<Rightarrow> world \<Rightarrow> AuthResult \<times> world" where
  "handleEmailLogin ev email password w =
     (let w1 = emit (SignInWithPassword email password) w in
      case auth_signInWithPassword ev (trace w) email password of
        Throws m \<Rightarrow> (failure m, w1)
      | Returns r \<Rightarrow>
          (case sdk_error r of
             Some e \<Rightarrow> (failure e, w1)
           | None \<Rightarrow> (succeeded (Some (AuthPayload (sdk_data r))), w1)))"

definition handleEmailSignup ::
  "env \<Rightarrow> string \<Rightarrow> string \<Rightarrow> string \<Rightarrow> world \<Rightarrow> AuthResult \<times> world" where
  "handleEmailSignup ev email password fullName w =
     (let (profileCheck, w1) = checkProfileExists ev email w in
      if exists profileCheck then
        (failure ''An account with this email already exists. Please log in instead.'', w1)
      else
        (let emailRedirectTo = origin ev @ ''/auth/callback'';
             w2 = emit (SignUp email password fullName emailRedirectTo) w1
         in case auth_signUp ev (trace w1) email password fullName emailRedirectTo of
              Throws m \<Rightarrow> (failure m, w2)
            | Returns r \<Rightarrow>
                (case sdk_error r of
                   Some e \<Rightarrow> (failure e, w2)
                 | None \<Rightarrow>
                     (case ad_session (sdk_data r) of
                        Some s \<Rightarrow> (succeeded (Some (AuthPayload (sdk_data r))), w2)
                      | None \<Rightarrow>
                          (\<lparr>success = True, error = None, requiresVerification = Some True,
                            data = Some (AuthPayload (sdk_data r))\<rparr>, w2)))))"

definition handleSignOut :: "env \<Rightarrow> world \<Rightarrow> AuthResult \<times> world" where
  "handleSignOut ev w =
     (let w1 = emit SignOut w in
      case auth_signOut ev (trace w) of
        Throws m \<Rightarrow> (failure m, w1)
      | Returns r \<Rightarrow>
          (case sdk_error r of
             Some e \<Rightarrow> (failure e, w1)
           | None \<Rightarrow> (succeeded None, removeItem ''oauth_mode'' w1)))"

definition resendVerificationEmail :: "env \<Rightarrow> string \<Rightarrow> world \<Rightarrow> AuthResult \<times> world" where
  "resendVerificationEmail ev email w =
     (let emailRedirectTo = origin ev @ ''/auth/callback'';
          w1 = emit (Resend email emailRedirectTo) w
      in case auth_resend ev (trace w) email emailRedirectTo of
           Throws m \<Rightarrow> (failure m, w1)
         | Returns r \<Rightarrow>
             (case sdk_error r of
                Some e \<Rightarrow> (failure e, w1)
              | None \<Rightarrow> (succeeded None, w1)))"

text \<open>\<open>import.meta.env\<close>: each variable is a string or undefined; \<open>PROD\<close> (here \<open>env_PROD\<close>) is a boolean.\<close>

record meta_env =
  VITE_SUPABASE_URL :: "string option"
  VITE_SUPABASE_ANON_KEY :: "string option"
  VITE_FORMSPREE_ENDPOINT :: "string option"
  VITE_GOOGLE_CLIENT_ID :: "string option"
  VITE_GOOGLE_CLIENT_SECRET :: "string option"
  env_PROD :: bool

text \<open>JavaScript truthiness of such a value: \<open>undefined\<close> and the empty string are falsy.\<close>

definition truthy :: "string option \<Rightarrow> bool" where
  "truthy v = (case v of None \<Rightarrow> False | Some s \<Rightarrow> s \<noteq> [])"

text \<open>\<open>validateOAuthConfig\<close> reads two variables and touches nothing else.\<close>

record OAuthConfigResult =
  oauth_valid :: bool
  oauth_errors :: "string list"

definition validateOAuthConfig :: "meta_env \<Rightarrow> OAuthConfigResult" where
  "validateOAuthConfig me =
     (let supabaseUrl = VITE_SUPABASE_URL me;
          supabaseKey = VITE_SUPABASE_ANON_KEY me;
          errors1 = (if \<not> truthy supabaseUrl then [''VITE_SUPABASE_URL is not set''] else []);
          errors2 = errors1 @ (if \<not> truthy supabaseKey then [''VITE_SUPABASE_ANON_KEY is not set''] else [])
      in \<lparr>oauth_valid = (length errors2 = 0), oauth_errors = errors2\<rparr>)"

section \<open>Environment validation\<close>

fun startsWith :: "'a list \<Rightarrow> 'a list \<Rightarrow> bool" where
  "startsWith s [] = True"
| "startsWith [] (p # ps) = False"
| "startsWith (c # cs) (p # ps) = (c = p \<and> startsWith cs ps)"

fun str_includes :: "'a list \<Rightarrow> 'a list \<Rightarrow> bool" where
  "str_includes [] sub = (sub = [])"
| "str_includes (c # cs) sub = (startsWith (c # cs) sub \<or> str_includes cs sub)"

record EnvConfig =
  supabaseUrl :: string
  supabaseAnonKey :: string
  formspreeEndpoint :: "string option"
  isProduction :: bool

record ValidationResult =
  valid :: bool
  errors :: "string list"
  warnings :: "string list"
  config :: "EnvConfig option"

text \<open>
  \<open>validateEnvironment\<close>. The two lists grow by \<open>push\<close> in the order of the source. The
  third check is \<open>supabaseUrl && !supabaseUrl.startsWith('https://')\<close>. When \<open>valid\<close>
  holds both variables are non-empty strings, so \<open>the\<close> reads a value that is there.
\<close>

definition validateEnvironment :: "meta_env \<Rightarrow> ValidationResult" where
  "validateEnvironment me =
     (let url = VITE_SUPABASE_URL me;
          anonKey = VITE_SUPABASE_ANON_KEY me;
          formspree = VITE_FORMSPREE_ENDPOINT me;
          errors1 = (if \<not> truthy url
                     then [''VITE_SUPABASE_URL is not set in environment variables''] else []);
          errors2 = errors1 @ (if \<not> truthy anonKey
                     then [''VITE_SUPABASE_ANON_KEY is not set in environment variables''] else []);
          errors3 = errors2 @ (if truthy url \<and> \<not> startsWith (the url) ''https://''
                     then [''VITE_SUPABASE_URL must start with https://''] else []);
          googleClientId = VITE_GOOGLE_CLIENT_ID me;
          googleClientSecret = VITE_GOOGLE_CLIENT_SECRET me;
          warnings1 = (if \<not> truthy googleClientId \<or> \<not> truthy googleClientSecret
                       then [''Google OAuth credentials not set (optional, configured in Supabase Dashboard)'']
                       else []);
          production = env_PROD me;
          warnings2 = warnings1 @ (if production \<and> truthy url \<and> str_includes (the url) ''localhost''
                       then [''Using localhost URL in production environment''] else []);
          ok = (length errors3 = 0)
      in \<lparr>valid = ok, errors = errors3, warnings = warnings2,
          config = (if ok then Some \<lparr>supabaseUrl = the url, supabaseAnonKey = the anonKey,
                                       formspreeEndpoint = formspree, isProduction = production\<rparr>
                    else None)\<rparr>)"

section \<open>Uploading a certification asset\<close>

text \<open>
  A JavaScript string is a sequence of UTF-16 code units, and a regular expression without
  the \<open>u\<close> flag works on code units. \<open>js\<close> writes an ASCII literal as code units.
\<close>

type_synonym jschar = "16 word"
type_synonym jsstring = "jschar list"

definition js :: "string \<Rightarrow> jsstring" where
  "js s = map (\<lambda>c. of_nat (of_char c)) s"

definition BUCKET :: jsstring where
  "BUCKET = js ''cert-assets''"

record File =
  file_name :: jsstring
  file_type :: jsstring

text \<open>The character class \<open>[a-zA-Z0-9_.-]\<close>, by code unit.\<close>

definition in_class :: "jschar \<Rightarrow> bool" where
  "in_class c =
     (let n = unat c
      in (97 \<le> n \<and> n \<le> 122) \<or> (65 \<le> n \<and> n \<le> 90) \<or> (48 \<le> n \<and> n \<le> 57)
         \<or> n = 95 \<or> n = 46 \<or> n = 45)"

text \<open>\<open>name.replace(/[^a-zA-Z0-9_.-]/g, "_")\<close>: a left-to-right pass over the code units.\<close>

primrec sanitize :: "jsstring \<Rightarrow> jsstring" where
  "sanitize [] = []"
| "sanitize (c # cs) = (if in_class c then c else 95) # sanitize cs"

text \<open>
  \<open>Date.now()\<close> returns a time value: an integer number of milliseconds, at most
  8.64e15 in magnitude. Inside a template literal a number of that size is written in
  plain decimal (exponent notation starts at 1e21), with a minus sign when negative.
\<close>

typedef time_value = "{t :: int. - 8640000000000000 \<le> t \<and> t \<le> 8640000000000000}"
  morphisms ms_of time_value_of
  by (rule exI [of _ 0]) simp

definition digit :: "nat \<Rightarrow> jschar" where
  "digit d = of_nat (48 + d)"

function digits :: "nat \<Rightarrow> jsstring" where
  "digits n = (if n < 10 then [digit n] else digits (n div 10) @ [digit (n mod 10)])"
  by pat_completeness auto
termination
  by (relation "measure id") auto

text \<open>The equation of \<open>digits\<close> recurs under its own \<open>if\<close>; it is unfolded by hand only.\<close>

declare digits.simps [simp del]

definition number_to_string :: "time_value \<Rightarrow> jsstring" where
  "number_to_string t =
     (let i = ms_of t in if i < 0 then 45 # digits (nat (- i)) else digits (nat i))"

text \<open>
  The storage SDK. \<open>upload\<close> resolves to \<open>{ data: { path, ... }, error: null }\<close> or to
  \<open>{ data: null, error }\<close>, or rejects; \<open>getPublicUrl\<close> is synchronous and builds a string.
\<close>

datatype storage_error = StorageError jsstring

datatype upload_response = UploadData jsstring | UploadError storage_error

record upload_call =
  uc_bucket :: jsstring
  uc_path :: jsstring
  uc_file :: File
  uc_upsert :: bool
  uc_contentType :: "jsstring option"

record storage_env =
  now :: time_value
  storage_upload :: "upload_call \<Rightarrow> upload_response outcome"
  storage_getPublicUrl :: "jsstring \<Rightarrow> jsstring \<Rightarrow> jsstring"

record UploadResult =
  url :: "jsstring option"
  upload_error :: "storage_error option"

text \<open>
  \<open>uploadCertificationAsset\<close> has no \<open>try\<close>: a rejection of the awaited upload rejects the
  function. The second component lists the upload calls made.
\<close>

definition uploadCertificationAsset ::
  "storage_env \<Rightarrow> File \<Rightarrow> jsstring \<Rightarrow> UploadResult outcome \<times> upload_call list" where
  "uploadCertificationAsset sv file certificationId =
     (let timestamp = now sv;
          sanitized = sanitize (file_name file);
          path = certificationId @ js ''/'' @ number_to_string timestamp @ js ''_'' @ sanitized;
          call = \<lparr>uc_bucket = BUCKET, uc_path = path, uc_file = file, uc_upsert = True,
                  uc_contentType = (if file_type file = [] then None else Some (file_type file))\<rparr>
      in case storage_upload sv call of
           Throws m \<Rightarrow> (Throws m, [call])
         | Returns (UploadError e) \<Rightarrow> (Returns \<lparr>url = None, upload_error = Some e\<rparr>, [call])
         | Returns (UploadData p) \<Rightarrow>
             (Returns \<lparr>url = Some (storage_getPublicUrl sv BUCKET p), upload_error = None\<rparr>, [call]))"

section \<open>The reCAPTCHA hook\<close>

text \<open>
  The state of \<open>useRecaptcha\<close>: the two \<open>useState\<close> cells and the ref. A value thrown by
  \<open>grecaptcha.execute\<close> is an \<open>Error\<close> with its message, or something else.
\<close>

record hook_state =
  loaded :: bool
  hook_error :: "string option"
  scriptLoadedRef :: bool

definition initial_hook_state :: hook_state where
  "initial_hook_state = \<lparr>loaded = False, hook_error = None, scriptLoadedRef = False\<rparr>"

datatype js_thrown = ErrorObject string | OtherValue

record recaptcha_env =
  grecaptcha_defined :: bool
  grecaptcha_execute :: "string \<Rightarrow> string \<Rightarrow> js_thrown + string"

datatype recaptcha_call = Execute string string

text \<open>
  \<open>executeRecaptcha\<close> as the closure of one render sees it: the outcome of the promise,
  the hook state after it, and the calls made to \<open>grecaptcha.execute\<close>.
\<close>

definition executeRecaptcha ::
  "recaptcha_env \<Rightarrow> string \<Rightarrow> hook_state \<Rightarrow> string \<Rightarrow> string outcome \<times> hook_state \<times> recaptcha_call list" where
  "executeRecaptcha rv siteKey st action =
     (if \<not> loaded st then (Throws ''reCAPTCHA not loaded yet'', st, [])
      else if \<not> grecaptcha_defined rv then (Throws ''reCAPTCHA not available'', st, [])
      else
        (case grecaptcha_execute rv siteKey action of
           Inr token \<Rightarrow> (Returns token, st, [Execute siteKey action])
         | Inl thrown \<Rightarrow>
             (let msg = (case thrown of ErrorObject m \<Rightarrow> m
                         | OtherValue \<Rightarrow> ''Failed to execute reCAPTCHA'')
              in (Throws msg, st\<lparr>hook_error := Some msg\<rparr>, [Execute siteKey action]))))"


section \<open>Observations\<close>

text \<open>What an operation did: the events it appended to the trace.\<close>

definition new_events :: "world \<Rightarrow> world \<Rightarrow> event list" where
  "new_events w w' = drop (length (trace w)) (trace w')"

fun is_sdk_call :: "event \<Rightarrow> bool" where
  "is_sdk_call (SetItem k v) = False"
| "is_sdk_call (GetItem k) = False"
| "is_sdk_call (RemoveItem k) = False"
| "is_sdk_call (SetTimeout ms) = False"
| "is_sdk_call e = True"

fun is_storage_access :: "event \<Rightarrow> bool" where
  "is_storage_access (SetItem k v) = True"
| "is_storage_access (GetItem k) = True"
| "is_storage_access (RemoveItem k) = True"
| "is_storage_access e = False"

definition sdk_calls :: "event list \<Rightarrow> event list" where
  "sdk_calls es = filter is_sdk_call es"

definition storage_accesses :: "event list \<Rightarrow> event list" where
  "storage_accesses es = filter is_storage_access es"

text \<open>The answer of the profile lookup for which \<open>checkProfileExists\<close> reports \<open>exists\<close>.\<close>

definition profile_found :: "profile_row option sdk_result outcome \<Rightarrow> bool" where
  "profile_found q =
     (case q of
        Throws m \<Rightarrow> False
      | Returns r \<Rightarrow>
          (case sdk_error r of
             Some e \<Rightarrow> False
           | None \<Rightarrow> (case sdk_data r of None \<Rightarrow> False | Some row \<Rightarrow> True)))"

text \<open>The error message an SDK call yields, returned in \<open>error\<close> or thrown, if any.\<close>

definition sdk_failure :: "'d sdk_result outcome \<Rightarrow> string option" where
  "sdk_failure q = (case q of Throws m \<Rightarrow> Some m | Returns r \<Rightarrow> sdk_error r)"

text \<open>The history at the first profile lookup of \<open>handleOAuthCallback\<close>.\<close>

definition after_session :: "world \<Rightarrow> event list" where
  "after_session w = trace w @ [GetSession, GetItem ''oauth_mode'', RemoveItem ''oauth_mode'']"

section \<open>Example environments\<close>

definition alice :: session where
  "alice = \<lparr>user_id = ''u-1'', user_email = ''alice@example.com''\<rparr>"

definition alice_row :: profile_row where
  "alice_row = \<lparr>row_id = ''u-1'', row_email = ''alice@example.com'', row_full_name = ''Alice''\<rparr>"

text \<open>Every call succeeds, Alice has a session, and no profile is ever found.\<close>

definition quiet_env :: env where
  "quiet_env =
     \<lparr>origin = ''https://app.example'',
      profiles_maybeSingle = (\<lambda>h email. Returns (SdkResult None None)),
      auth_signInWithOAuth = (\<lambda>h redirectTo.
         Returns (SdkResult \<lparr>oauth_provider = ''google'', oauth_url = Some ''https://accounts.example''\<rparr> None)),
      auth_getSession = (\<lambda>h. Returns (SdkResult (Some alice) None)),
      auth_signOut = (\<lambda>h. Returns (SdkResult () None)),
      auth_signInWithPassword = (\<lambda>h email password.
         Returns (SdkResult \<lparr>ad_user_id = Some ''u-1'', ad_session = Some alice\<rparr> None)),
      auth_signUp = (\<lambda>h email password fullName redirectTo.
         Returns (SdkResult \<lparr>ad_user_id = Some ''u-1'', ad_session = None\<rparr> None)),
      auth_resend = (\<lambda>h email redirectTo. Returns (SdkResult () None))\<rparr>"


text \<open>The profile is there from the start.\<close>

definition existing_env :: env where
  "existing_env = quiet_env\<lparr>profiles_maybeSingle :=
     (\<lambda>h email. Returns (SdkResult (Some alice_row) None))\<rparr>"

text \<open>The profile lookup returns an error.\<close>

definition lookup_error_env :: env where
  "lookup_error_env = quiet_env\<lparr>profiles_maybeSingle :=
     (\<lambda>h email. Returns (SdkResult None (Some ''permission denied for table profiles'')))\<rparr>"

text \<open>The sign-out call rejects, or returns an error.\<close>

definition signout_rejects_env :: env where
  "signout_rejects_env = quiet_env\<lparr>auth_signOut := (\<lambda>h. Throws ''Failed to fetch'')\<rparr>"

definition signout_error_env :: env where
  "signout_error_env = quiet_env\<lparr>auth_signOut :=
     (\<lambda>h. Returns (SdkResult () (Some ''Auth session missing!'')))\<rparr>"

text \<open>
  Alice has a profile, but the first lookup fails: it rejects, and every lookup after it
  returns her row.
\<close>

definition flaky_env :: env where
  "flaky_env = quiet_env\<lparr>profiles_maybeSingle :=
     (\<lambda>h email. if h = [] then Throws ''Failed to fetch''
                 else Returns (SdkResult (Some alice_row) None))\<rparr>"

text \<open>\<open>getSession\<close> returns an error.\<close>

definition session_error_env :: env where
  "session_error_env = quiet_env\<lparr>auth_getSession :=
     (\<lambda>h. Returns (SdkResult None (Some ''invalid JWT'')))\<rparr>"

definition login_rejects_env :: env where
  "login_rejects_env = quiet_env\<lparr>auth_signInWithPassword :=
     (\<lambda>h email password. Throws ''Failed to fetch'')\<rparr>"

text \<open>A page whose storage holds the flag with the given value, or no flag.\<close>

definition page :: "string option \<Rightarrow> world" where
  "page flag = \<lparr>storage = (\<lambda>k. if k = ''oauth_mode'' then flag else None), trace = []\<rparr>"

text \<open>Build-time variables: a complete set, one with a plain-http URL, one with an empty key.\<close>

definition good_meta_env :: meta_env where
  "good_meta_env =
     \<lparr>VITE_SUPABASE_URL = Some ''https://abc.supabase.co'', VITE_SUPABASE_ANON_KEY = Some ''anon-key'',
      VITE_FORMSPREE_ENDPOINT = None, VITE_GOOGLE_CLIENT_ID = None, VITE_GOOGLE_CLIENT_SECRET = None,
      env_PROD = False\<rparr>"

definition http_meta_env :: meta_env where
  "http_meta_env = good_meta_env\<lparr>VITE_SUPABASE_URL := Some ''http://localhost:54321''\<rparr>"

definition empty_key_meta_env :: meta_env where
  "empty_key_meta_env = good_meta_env\<lparr>VITE_SUPABASE_ANON_KEY := Some []\<rparr>"

text \<open>A file to upload, and storage services that accept it, refuse it, or reject.\<close>

definition scan :: File where
  "scan = \<lparr>file_name = js ''my cert (1).pdf'', file_type = js ''application/pdf''\<rparr>"

text \<open>
  A file whose name is \<open>a\<close>, a space, \<open>/\<close>, \<open>?\<close>, \<open>+\<close>, e-acute, a lone surrogate and
  then \<open>-_.Z9\<close>; and the certification id \<open>c7\<close>.
\<close>

definition odd_file :: File where
  "odd_file =
     \<lparr>file_name = [0x61, 0x20, 0x2F, 0x3F, 0x2B, 0xE9, 0xD83D, 0x2D, 0x5F, 0x2E, 0x5A, 0x39],
      file_type = []\<rparr>"

definition c7 :: jsstring where
  "c7 = [0x63, 0x37]"

definition accepting_storage :: storage_env where
  "accepting_storage =
     \<lparr>now = time_value_of 1700000000000,
      storage_upload = (\<lambda>c. Returns (UploadData (uc_path c))),
      storage_getPublicUrl = (\<lambda>bucket path. js ''https://cdn.example/'' @ bucket @ js ''/'' @ path)\<rparr>"

definition refusing_storage :: storage_env where
  "refusing_storage = accepting_storage\<lparr>storage_upload :=
     (\<lambda>c. Returns (UploadError (StorageError (js ''Payload too large''))))\<rparr>"

definition rejecting_storage :: storage_env where
  "rejecting_storage = accepting_storage\<lparr>storage_upload := (\<lambda>c. Throws ''Failed to fetch'')\<rparr>"

text \<open>A page on which the reCAPTCHA script is present and answers.\<close>

definition answering_recaptcha :: recaptcha_env where
  "answering_recaptcha =
     \<lparr>grecaptcha_defined = True, grecaptcha_execute = (\<lambda>siteKey action. Inr ''token-1'')\<rparr>"

section \<open>Symbolic execution of the auth service\<close>

lemmas world_ops = emit_def setItem_def getItem_def removeItem_def

lemma checkProfileExists_exists:
  "exists (fst (checkProfileExists ev email w)) =
     profile_found (profiles_maybeSingle ev (trace w) email)"
  by (simp add: checkProfileExists_def profile_found_def Let_def
      split: outcome.split option.split)

lemma checkProfileExists_world:
  "snd (checkProfileExists ev email w) = emit (ProfilesQuery email) w"
  by (simp add: checkProfileExists_def Let_def split: outcome.split option.split)

lemma callback_throws:
  "auth_getSession ev (trace w) = Throws m \<Longrightarrow>
   handleOAuthCallback ev w =
     (failure m, w\<lparr>storage := (storage w)(''oauth_mode'' := None),
                   trace := trace w @ [GetSession, RemoveItem ''oauth_mode'']\<rparr>)"
  by (simp add: handleOAuthCallback_def Let_def world_ops)

lemma callback_error:
  "auth_getSession ev (trace w) = Returns r \<Longrightarrow> sdk_error r = Some e \<Longrightarrow>
   handleOAuthCallback ev w = (failure e, w\<lparr>trace := trace w @ [GetSession]\<rparr>)"
  by (simp add: handleOAuthCallback_def Let_def world_ops)

lemma callback_no_session:
  "auth_getSession ev (trace w) = Returns r \<Longrightarrow> sdk_error r = None \<Longrightarrow> sdk_data r = None \<Longrightarrow>
   handleOAuthCallback ev w =
     (failure ''No session found. Please try again.'', w\<lparr>trace := trace w @ [GetSession]\<rparr>)"
  by (simp add: handleOAuthCallback_def Let_def world_ops)

lemma callback_session:
  assumes "auth_getSession ev (trace w) = Returns r" "sdk_error r = None" "sdk_data r = Some s"
  shows "handleOAuthCallback ev w =
    (let e = user_email s;
         mode = authMode_of (storage w ''oauth_mode'');
         st = (storage w)(''oauth_mode'' := None);
         h = after_session w;
         found1 = profile_found (profiles_maybeSingle ev h e)
     in if mode = ''signup'' then
          (if found1 then
             (failure ''An account with this email already exists. Please log in instead.'',
              w\<lparr>storage := st, trace := h @ [ProfilesQuery e]\<rparr>)
           else
             (if profile_found (profiles_maybeSingle ev (h @ [ProfilesQuery e, SetTimeout 1000]) e)
              then succeeded (Some (SessionPayload s))
              else failure ''Failed to create user profile. Please try again.'',
              w\<lparr>storage := st, trace := h @ [ProfilesQuery e, SetTimeout 1000, ProfilesQuery e]\<rparr>))
        else if mode = ''login'' then
          (if found1 then
             (succeeded (Some (SessionPayload s)), w\<lparr>storage := st, trace := h @ [ProfilesQuery e]\<rparr>)
           else
             (case auth_signOut ev (h @ [ProfilesQuery e]) of
                Throws m \<Rightarrow>
                  (failure m,
                   w\<lparr>storage := st, trace := h @ [ProfilesQuery e, SignOut, RemoveItem ''oauth_mode'']\<rparr>)
              | Returns r' \<Rightarrow>
                  (failure ''No account found with this email. Please sign up first.'',
                   w\<lparr>storage := st, trace := h @ [ProfilesQuery e, SignOut]\<rparr>)))
        else (failure ''Invalid authentication mode'',
              w\<lparr>storage := st, trace := h @ [ProfilesQuery e]\<rparr>))"
  using assms
  by (simp add: handleOAuthCallback_def Let_def split_beta checkProfileExists_exists
      checkProfileExists_world world_ops after_session_def split: outcome.split)

lemma session_result: "q = Returns (SdkResult (Some s) None) \<Longrightarrow>
    \<exists>r. q = Returns r \<and> sdk_error r = None \<and> sdk_data r = Some s"
  by simp

section \<open>The poll-once check after an OAuth sign-up\<close>



section \<open>How many SDK calls an operation makes\<close>

lemma new_events_upd [simp]:
  "new_events w (w\<lparr>storage := st, trace := trace w @ es\<rparr>) = es"
  "new_events w (w\<lparr>trace := trace w @ es\<rparr>) = es"
  by (simp_all add: new_events_def)

lemma calls_callback_session:
  assumes "auth_getSession ev (trace w) = Returns r" "sdk_error r = None" "sdk_data r = Some s"
  shows "sdk_calls (new_events w (snd (handleOAuthCallback ev w))) =
     GetSession # ProfilesQuery (user_email s) #
       (if profile_found (profiles_maybeSingle ev (after_session w) (user_email s)) then []
        else if authMode_of (storage w ''oauth_mode'') = ''signup'' then [ProfilesQuery (user_email s)]
        else if authMode_of (storage w ''oauth_mode'') = ''login'' then [SignOut]
        else [])"
  by (simp add: callback_session [OF assms] Let_def after_session_def sdk_calls_def
      split: outcome.split)

lemma calls_handleOAuthCallback:
  "\<exists>rest. sdk_calls (new_events w (snd (handleOAuthCallback ev w))) = GetSession # rest
      \<and> length rest \<le> 2"
proof (cases "auth_getSession ev (trace w)")
  case (Throws m)
  then show ?thesis
    by (simp add: callback_throws sdk_calls_def)
next
  case (Returns r)
  show ?thesis
  proof (cases "sdk_error r")
    case (Some e)
    with Returns show ?thesis
      by (simp add: callback_error  sdk_calls_def)
  next
    case None
    show ?thesis
    proof (cases "sdk_data r")
      case no: None
      with Returns None show ?thesis
        by (simp add: callback_no_session sdk_calls_def)
    next
      case (Some s)
      show ?thesis
        by (simp add: calls_callback_session [OF Returns None Some])
    qed
  qed
qed

lemma calls_handleEmailLogin:
  "sdk_calls (new_events w (snd (handleEmailLogin ev email password w))) =
     [SignInWithPassword email password]"
  by (simp add: handleEmailLogin_def Let_def world_ops new_events_def sdk_calls_def
      split: outcome.split option.split)

lemma calls_handleGoogleOAuth:
  "sdk_calls (new_events w (snd (handleGoogleOAuth ev mode w))) =
     [SignInWithOAuth (origin ev @ ''/auth/callback'')]"
  by (simp add: handleGoogleOAuth_def Let_def world_ops new_events_def sdk_calls_def
      split: outcome.split option.split)

lemma calls_handleSignOut:
  "sdk_calls (new_events w (snd (handleSignOut ev w))) = [SignOut]"
  by (simp add: handleSignOut_def Let_def world_ops new_events_def sdk_calls_def
      split: outcome.split option.split)

lemma calls_resendVerificationEmail:
  "sdk_calls (new_events w (snd (resendVerificationEmail ev email w))) =
     [Resend email (origin ev @ ''/auth/callback'')]"
  by (simp add: resendVerificationEmail_def Let_def world_ops new_events_def sdk_calls_def
      split: outcome.split option.split)

lemma calls_checkProfileExists:
  "sdk_calls (new_events w (snd (checkProfileExists ev email w))) = [ProfilesQuery email]"
  by (simp add: checkProfileExists_world world_ops new_events_def sdk_calls_def)

lemma calls_handleEmailSignup:
  "sdk_calls (new_events w (snd (handleEmailSignup ev email password fullName w))) =
     (if profile_found (profiles_maybeSingle ev (trace w) email) then [ProfilesQuery email]
      else [ProfilesQuery email, SignUp email password fullName (origin ev @ ''/auth/callback'')])"
  by (simp add: handleEmailSignup_def Let_def split_beta checkProfileExists_exists
      checkProfileExists_world world_ops new_events_def sdk_calls_def
      split: outcome.split option.split)

lemma calls_callback_cases:
  "(case auth_getSession ev (trace w) of
      Returns (SdkResult (Some s) None) \<Rightarrow>
        sdk_calls (new_events w (snd (handleOAuthCallback ev w))) =
          GetSession # ProfilesQuery (user_email s) #
            (if profile_found (profiles_maybeSingle ev (after_session w) (user_email s)) then []
             else if authMode_of (storage w ''oauth_mode'') = ''signup'' then [ProfilesQuery (user_email s)]
             else if authMode_of (storage w ''oauth_mode'') = ''login'' then [SignOut]
             else [])
    | other \<Rightarrow> sdk_calls (new_events w (snd (handleOAuthCallback ev w))) = [GetSession])"
proof (cases "auth_getSession ev (trace w)")
  case (Throws m)
  then show ?thesis
    by (simp add: callback_throws sdk_calls_def)
next
  case (Returns r)
  show ?thesis
  proof (cases "sdk_error r")
    case (Some e)
    with Returns show ?thesis
      by (cases r) (simp add: callback_error sdk_calls_def split: option.split)
  next
    case None
    show ?thesis
    proof (cases "sdk_data r")
      case no: None
      with Returns None show ?thesis
        by (cases r) (simp add: callback_no_session sdk_calls_def)
    next
      case (Some s)
      from calls_callback_session [OF Returns None Some] Returns None Some show ?thesis
        by (cases r) simp
    qed
  qed
qed

text \<open>
  Claim C2 says that every exported operation makes exactly one SDK call. That holds for
  \<open>handleEmailLogin\<close>, \<open>handleGoogleOAuth\<close>, \<open>handleSignOut\<close>, \<open>resendVerificationEmail\<close>
  and \<open>checkProfileExists\<close>. \<open>handleEmailSignup\<close> looks the profile up and then, when none
  is found, calls \<open>signUp\<close>: one or two calls. \<open>handleOAuthCallback\<close> calls \<open>getSession\<close>
  first and makes at most two more calls: between one and three calls. With a session it
  looks the profile up and then, when none is found, looks it up again (mode \<open>signup\<close>)
  or signs out (mode \<open>login\<close>); without one \<open>getSession\<close> is its only call. Claim C2, as
  amended:
\<close>

theorem sdk_calls_per_operation:
  "sdk_calls (new_events w (snd (handleEmailLogin ev email password w))) =
     [SignInWithPassword email password]
   \<and> sdk_calls (new_events w (snd (handleGoogleOAuth ev mode w))) =
     [SignInWithOAuth (origin ev @ ''/auth/callback'')]
   \<and> sdk_calls (new_events w (snd (handleSignOut ev w))) = [SignOut]
   \<and> sdk_calls (new_events w (snd (resendVerificationEmail ev email w))) =
     [Resend email (origin ev @ ''/auth/callback'')]
   \<and> sdk_calls (new_events w (snd (checkProfileExists ev email w))) = [ProfilesQuery email]
   \<and> sdk_calls (new_events w (snd (handleEmailSignup ev email password fullName w))) =
     (if profile_found (profiles_maybeSingle ev (trace w) email) then [ProfilesQuery email]
      else [ProfilesQuery email, SignUp email password fullName (origin ev @ ''/auth/callback'')])
   \<and> hd (sdk_calls (new_events w (snd (handleOAuthCallback ev w)))) = GetSession
   \<and> 1 \<le> length (sdk_calls (new_events w (snd (handleOAuthCallback ev w))))
   \<and> length (sdk_calls (new_events w (snd (handleOAuthCallback ev w)))) \<le> 3
   \<and> (case auth_getSession ev (trace w) of
        Returns (SdkResult (Some s) None) \<Rightarrow>
          sdk_calls (new_events w (snd (handleOAuthCallback ev w))) =
            GetSession # ProfilesQuery (user_email s) #
              (if profile_found (profiles_maybeSingle ev (after_session w) (user_email s)) then []
               else if authMode_of (storage w ''oauth_mode'') = ''signup'' then [ProfilesQuery (user_email s)]
               else if authMode_of (storage w ''oauth_mode'') = ''login'' then [SignOut]
               else [])
      | other \<Rightarrow> sdk_calls (new_events w (snd (handleOAuthCallback ev w))) = [GetSession])"
proof -
  obtain rest where "sdk_calls (new_events w (snd (handleOAuthCallback ev w))) = GetSession # rest"
    and "length rest \<le> 2"
    using calls_handleOAuthCallback by blast
  then have bounds: "hd (sdk_calls (new_events w (snd (handleOAuthCallback ev w)))) = GetSession
      \<and> 1 \<le> length (sdk_calls (new_events w (snd (handleOAuthCallback ev w))))
      \<and> length (sdk_calls (new_events w (snd (handleOAuthCallback ev w)))) \<le> 3"
    by simp
  note single = calls_handleEmailLogin [of w ev email password] calls_handleGoogleOAuth [of w ev mode]
    calls_handleSignOut [of w ev] calls_resendVerificationEmail [of w ev email]
    calls_checkProfileExists [of w ev email] calls_handleEmailSignup [of w ev email password fullName]
  from single bounds calls_callback_cases [of w ev] show ?thesis
    by blast
qed

text \<open>The call lists of three concrete runs, as instances of the theorem.\<close>

theorem sdk_calls_per_operation_witness:
  "sdk_calls (new_events (page None) (snd (handleEmailLogin quiet_env ''alice@example.com'' ''pw'' (page None)))) =
     [SignInWithPassword ''alice@example.com'' ''pw'']
   \<and> sdk_calls (new_events (page None)
        (snd (handleEmailSignup existing_env ''alice@example.com'' ''pw'' ''Alice'' (page None)))) =
     [ProfilesQuery ''alice@example.com'']
   \<and> length (sdk_calls (new_events (page None) (snd (handleOAuthCallback quiet_env (page None))))) \<le> 3"
  using sdk_calls_per_operation [of "page None" quiet_env "''alice@example.com''" "''pw''"]
    sdk_calls_per_operation [of "page None" existing_env "''alice@example.com''" "''pw''" _ "''Alice''"]
  by (simp add: existing_env_def quiet_env_def profile_found_def page_def)

text \<open>
  Two runs that make more than one SDK call: an email sign-up for an address without a
  profile (lookup, then \<open>signUp\<close>), and a callback in login mode for an address without
  a profile (\<open>getSession\<close>, lookup, \<open>signOut\<close>).
\<close>

theorem single_sdk_call_counterexample:
  "sdk_calls (new_events (page None)
      (snd (handleEmailSignup quiet_env ''alice@example.com'' ''pw'' ''Alice'' (page None)))) =
     [ProfilesQuery ''alice@example.com'',
      SignUp ''alice@example.com'' ''pw'' ''Alice'' ''https://app.example/auth/callback'']
   \<and> sdk_calls (new_events (page None) (snd (handleOAuthCallback quiet_env (page None)))) =
     [GetSession, ProfilesQuery ''alice@example.com'', SignOut]
   \<and> length (sdk_calls (new_events (page None) (snd (handleOAuthCallback quiet_env (page None))))) \<noteq> 1"
proof -
  have sess: "auth_getSession quiet_env (trace (page None)) = Returns (SdkResult (Some alice) None)"
    by (simp add: quiet_env_def)
  have "sdk_calls (new_events (page None) (snd (handleOAuthCallback quiet_env (page None)))) =
     [GetSession, ProfilesQuery ''alice@example.com'', SignOut]"
    unfolding calls_callback_session [OF sess sdk_result.sel(2) sdk_result.sel(1)]
    by (simp add: authMode_of_def page_def alice_def profile_found_def quiet_env_def)
  moreover have "sdk_calls (new_events (page None)
      (snd (handleEmailSignup quiet_env ''alice@example.com'' ''pw'' ''Alice'' (page None)))) =
     [ProfilesQuery ''alice@example.com'',
      SignUp ''alice@example.com'' ''pw'' ''Alice'' ''https://app.example/auth/callback'']"
    by (simp add: calls_handleEmailSignup profile_found_def quiet_env_def)
  ultimately show ?thesis by simp
qed

section \<open>Errors of the SDK in the results\<close>

lemma handleEmailLogin_failure:
  "sdk_failure (auth_signInWithPassword ev (trace w) email password) = Some m \<Longrightarrow>
   fst (handleEmailLogin ev email password w) = failure m"
  by (auto simp: handleEmailLogin_def sdk_failure_def Let_def split: outcome.splits)

lemma handleGoogleOAuth_failure:
  "sdk_failure (auth_signInWithOAuth ev (trace w @ [SetItem ''oauth_mode'' (mode_string mode)])
       (origin ev @ ''/auth/callback'')) = Some m \<Longrightarrow>
   fst (handleGoogleOAuth ev mode w) = failure m"
  by (auto simp: handleGoogleOAuth_def sdk_failure_def Let_def setItem_def split: outcome.splits)

lemma handleOAuthCallback_failure:
  assumes "sdk_failure (auth_getSession ev (trace w)) = Some m"
  shows "fst (handleOAuthCallback ev w) = failure m"
proof (cases "auth_getSession ev (trace w)")
  case (Returns r)
  with assms have "sdk_error r = Some m"
    by (simp add: sdk_failure_def)
  with Returns show ?thesis
    by (simp add: callback_error)
next
  case (Throws m')
  with assms show ?thesis
    by (simp add: sdk_failure_def callback_throws)
qed

lemma handleSignOut_failure:
  "sdk_failure (auth_signOut ev (trace w)) = Some m \<Longrightarrow> fst (handleSignOut ev w) = failure m"
  by (auto simp: handleSignOut_def sdk_failure_def Let_def split: outcome.splits)

lemma resendVerificationEmail_failure:
  "sdk_failure (auth_resend ev (trace w) email (origin ev @ ''/auth/callback'')) = Some m \<Longrightarrow>
   fst (resendVerificationEmail ev email w) = failure m"
  by (auto simp: resendVerificationEmail_def sdk_failure_def Let_def split: outcome.splits)

lemma handleEmailSignup_failure:
  assumes "\<not> profile_found (profiles_maybeSingle ev (trace w) email)"
    and "sdk_failure (auth_signUp ev (trace w @ [ProfilesQuery email]) email password fullName
           (origin ev @ ''/auth/callback'')) = Some m"
  shows "fst (handleEmailSignup ev email password fullName w) = failure m"
  using assms
  by (auto simp: handleEmailSignup_def sdk_failure_def Let_def split_beta
      checkProfileExists_exists checkProfileExists_world emit_def split: outcome.splits)

text \<open>
  Claim C3, as amended. When the auth SDK call of an operation returns an error, or rejects
  with an error that carries a message (\<open>signInWithPassword\<close>, \<open>signInWithOAuth\<close>,
  \<open>getSession\<close>, \<open>signOut\<close> in \<open>handleSignOut\<close>, \<open>resend\<close>, and \<open>signUp\<close> once the lookup has
  found no profile), the operation returns the result \<open>{ success: false, error }\<close> whose
  \<open>error\<close> is the message of that error, unchanged, and which has no other field.
\<close>

theorem sdk_error_forwarded:
  "(sdk_failure (auth_signInWithPassword ev (trace w) email password) = Some m \<longrightarrow>
      fst (handleEmailLogin ev email password w) =
        \<lparr>success = False, error = Some m, requiresVerification = None, data = None\<rparr>)
   \<and> (sdk_failure (auth_signInWithOAuth ev (trace w @ [SetItem ''oauth_mode'' (mode_string mode)])
         (origin ev @ ''/auth/callback'')) = Some m \<longrightarrow>
      fst (handleGoogleOAuth ev mode w) =
        \<lparr>success = False, error = Some m, requiresVerification = None, data = None\<rparr>)
   \<and> (sdk_failure (auth_getSession ev (trace w)) = Some m \<longrightarrow>
      fst (handleOAuthCallback ev w) =
        \<lparr>success = False, error = Some m, requiresVerification = None, data = None\<rparr>)
   \<and> (sdk_failure (auth_signOut ev (trace w)) = Some m \<longrightarrow>
      fst (handleSignOut ev w) =
        \<lparr>success = False, error = Some m, requiresVerification = None, data = None\<rparr>)
   \<and> (sdk_failure (auth_resend ev (trace w) email (origin ev @ ''/auth/callback'')) = Some m \<longrightarrow>
      fst (resendVerificationEmail ev email w) =
        \<lparr>success = False, error = Some m, requiresVerification = None, data = None\<rparr>)
   \<and> (\<not> profile_found (profiles_maybeSingle ev (trace w) email) \<and>
      sdk_failure (auth_signUp ev (trace w @ [ProfilesQuery email]) email password fullName
         (origin ev @ ''/auth/callback'')) = Some m \<longrightarrow>
      fst (handleEmailSignup ev email password fullName w) =
        \<lparr>success = False, error = Some m, requiresVerification = None, data = None\<rparr>)"
  by (intro conjI impI handleEmailLogin_failure [unfolded failure_def]
      handleGoogleOAuth_failure [unfolded failure_def]
      handleOAuthCallback_failure [unfolded failure_def]
      handleSignOut_failure [unfolded failure_def]
      resendVerificationEmail_failure [unfolded failure_def]
      handleEmailSignup_failure [unfolded failure_def]) simp_all

text \<open>Two failing calls, one rejected and one with a returned error, and their results.\<close>

theorem sdk_error_forwarded_witness:
  "sdk_failure (auth_signInWithPassword login_rejects_env (trace (page None)) ''alice@example.com'' ''pw'')
     = Some ''Failed to fetch''
   \<and> fst (handleEmailLogin login_rejects_env ''alice@example.com'' ''pw'' (page None)) =
     \<lparr>success = False, error = Some ''Failed to fetch'', requiresVerification = None, data = None\<rparr>
   \<and> sdk_failure (auth_signOut signout_error_env (trace (page None))) = Some ''Auth session missing!''
   \<and> fst (handleSignOut signout_error_env (page None)) =
     \<lparr>success = False, error = Some ''Auth session missing!'', requiresVerification = None,
      data = None\<rparr>"
  using sdk_error_forwarded [of login_rejects_env "page None" "''alice@example.com''" "''pw''"
      "''Failed to fetch''"]
    sdk_error_forwarded [of signout_error_env "page None" _ _ "''Auth session missing!''"]
  by (simp add: login_rejects_env_def signout_error_env_def quiet_env_def sdk_failure_def page_def)

text \<open>
  The profile lookup returns an error, and neither caller forwards it: the email sign-up
  goes on and succeeds, and the callback in login mode reports that no account was found.
\<close>

theorem lookup_error_not_forwarded_counterexample:
  "profiles_maybeSingle lookup_error_env [] ''alice@example.com'' =
     Returns (SdkResult None (Some ''permission denied for table profiles''))
   \<and> success (fst (handleEmailSignup lookup_error_env ''alice@example.com'' ''pw'' ''Alice'' (page None)))
   \<and> error (fst (handleEmailSignup lookup_error_env ''alice@example.com'' ''pw'' ''Alice'' (page None)))
       = None
   \<and> profiles_maybeSingle lookup_error_env
         [GetSession, GetItem ''oauth_mode'', RemoveItem ''oauth_mode''] ''alice@example.com'' =
     Returns (SdkResult None (Some ''permission denied for table profiles''))
   \<and> fst (handleOAuthCallback lookup_error_env (page None)) =
     \<lparr>success = False, error = Some ''No account found with this email. Please sign up first.'',
      requiresVerification = None, data = None\<rparr>"
proof -
  have sess: "auth_getSession lookup_error_env (trace (page None)) = Returns (SdkResult (Some alice) None)"
    by (simp add: lookup_error_env_def quiet_env_def)
  have "fst (handleOAuthCallback lookup_error_env (page None)) =
     \<lparr>success = False, error = Some ''No account found with this email. Please sign up first.'',
      requiresVerification = None, data = None\<rparr>"
    unfolding callback_session [OF sess sdk_result.sel(2) sdk_result.sel(1)]
    by (simp add: authMode_of_def page_def alice_def profile_found_def lookup_error_env_def
        quiet_env_def after_session_def failure_def)
  moreover have "fst (handleEmailSignup lookup_error_env ''alice@example.com'' ''pw'' ''Alice'' (page None)) =
      \<lparr>success = True, error = None, requiresVerification = Some True,
       data = Some (AuthPayload \<lparr>ad_user_id = Some ''u-1'', ad_session = None\<rparr>)\<rparr>"
    by (simp add: handleEmailSignup_def checkProfileExists_def Let_def emit_def
        lookup_error_env_def quiet_env_def page_def)
  ultimately show ?thesis
    by (simp add: lookup_error_env_def quiet_env_def)
qed

section \<open>Fixed messages of the callback and of the sign-up\<close>

text \<open>
  Claim C4, as amended. In \<open>handleOAuthCallback\<close>, with a session, the mode \<open>login\<close> and no
  profile found, the function calls \<open>signOut\<close> as its last SDK call. When that call
  returns (with or without an error) the result is \<open>success = false\<close> with the error
  \<open>No account found with this email. Please sign up first.\<close>; when it rejects with an
  error that carries a message, the result is \<open>success = false\<close> with that message.
\<close>

theorem handleOAuthCallback_login_without_profile:
  assumes sess: "auth_getSession ev (trace w) = Returns (SdkResult (Some s) None)"
    and mode: "authMode_of (storage w ''oauth_mode'') = ''login''"
    and none: "\<not> profile_found (profiles_maybeSingle ev (after_session w) (user_email s))"
  shows "sdk_calls (new_events w (snd (handleOAuthCallback ev w))) =
           [GetSession, ProfilesQuery (user_email s), SignOut]
         \<and> fst (handleOAuthCallback ev w) =
           (case auth_signOut ev (after_session w @ [ProfilesQuery (user_email s)]) of
              Returns r \<Rightarrow>
                \<lparr>success = False,
                 error = Some ''No account found with this email. Please sign up first.'',
                 requiresVerification = None, data = None\<rparr>
            | Throws m \<Rightarrow>
                \<lparr>success = False, error = Some m, requiresVerification = None, data = None\<rparr>)"
proof -
  from sess obtain r where r: "auth_getSession ev (trace w) = Returns r"
      "sdk_error r = None" "sdk_data r = Some s"
    by (auto dest: session_result)
  have "sdk_calls (new_events w (snd (handleOAuthCallback ev w))) =
      [GetSession, ProfilesQuery (user_email s), SignOut]"
    using mode none by (simp add: calls_callback_session [OF r])
  moreover have "fst (handleOAuthCallback ev w) =
      (case auth_signOut ev (after_session w @ [ProfilesQuery (user_email s)]) of
         Returns r \<Rightarrow>
           \<lparr>success = False,
            error = Some ''No account found with this email. Please sign up first.'',
            requiresVerification = None, data = None\<rparr>
       | Throws m \<Rightarrow>
           \<lparr>success = False, error = Some m, requiresVerification = None, data = None\<rparr>)"
    using mode none
    by (simp add: callback_session [OF r] Let_def failure_def split: outcome.split)
  ultimately show ?thesis by simp
qed

text \<open>A login without a profile in which the sign-out call returns.\<close>

theorem handleOAuthCallback_login_without_profile_witness:
  "sdk_calls (new_events (page (Some ''login'')) (snd (handleOAuthCallback quiet_env (page (Some ''login''))))) =
     [GetSession, ProfilesQuery ''alice@example.com'', SignOut]
   \<and> fst (handleOAuthCallback quiet_env (page (Some ''login''))) =
     \<lparr>success = False, error = Some ''No account found with this email. Please sign up first.'',
      requiresVerification = None, data = None\<rparr>"
  using handleOAuthCallback_login_without_profile [of quiet_env "page (Some ''login'')" alice]
  by (simp add: quiet_env_def page_def alice_def authMode_of_def after_session_def profile_found_def)

text \<open>
  The sign-out call rejects: the callback is in login mode, has a session and finds no
  profile, and its error is the message of the rejection, not the fixed string.
\<close>

theorem signout_rejects_counterexample:
  "auth_getSession signout_rejects_env (trace (page (Some ''login''))) =
     Returns (SdkResult (Some \<lparr>user_id = ''u-1'', user_email = ''alice@example.com''\<rparr>) None)
   \<and> storage (page (Some ''login'')) ''oauth_mode'' = Some ''login''
   \<and> profiles_maybeSingle signout_rejects_env
         [GetSession, GetItem ''oauth_mode'', RemoveItem ''oauth_mode''] ''alice@example.com'' =
       Returns (SdkResult None None)
   \<and> auth_signOut signout_rejects_env
         [GetSession, GetItem ''oauth_mode'', RemoveItem ''oauth_mode'',
          ProfilesQuery ''alice@example.com''] = Throws ''Failed to fetch''
   \<and> fst (handleOAuthCallback signout_rejects_env (page (Some ''login''))) =
       \<lparr>success = False, error = Some ''Failed to fetch'', requiresVerification = None, data = None\<rparr>"
proof -
  have sess: "auth_getSession signout_rejects_env (trace (page (Some ''login''))) =
      Returns (SdkResult (Some alice) None)"
    by (simp add: signout_rejects_env_def quiet_env_def)
  have res: "fst (handleOAuthCallback signout_rejects_env (page (Some ''login''))) =
      \<lparr>success = False, error = Some ''Failed to fetch'', requiresVerification = None, data = None\<rparr>"
    unfolding callback_session [OF sess sdk_result.sel(2) sdk_result.sel(1)]
    by (simp add: authMode_of_def page_def alice_def profile_found_def signout_rejects_env_def
        quiet_env_def after_session_def failure_def)
  show ?thesis
    unfolding res
    by (simp add: signout_rejects_env_def quiet_env_def page_def alice_def)
qed

text \<open>
  Claim C5, as amended. A sign-up for an email for which the profile lookup returns a row
  and no error is refused with \<open>success = false\<close> and the error
  \<open>An account with this email already exists. Please log in instead.\<close>:
  \<open>handleEmailSignup\<close> returns it after the lookup alone, so that no \<open>signUp\<close> call is made,
  and \<open>handleOAuthCallback\<close> returns it in the mode \<open>signup\<close> after its first lookup.
\<close>

theorem signup_with_existing_profile:
  "(profiles_maybeSingle ev (trace w) email = Returns (SdkResult (Some row) None) \<longrightarrow>
      fst (handleEmailSignup ev email password fullName w) =
        \<lparr>success = False,
         error = Some ''An account with this email already exists. Please log in instead.'',
         requiresVerification = None, data = None\<rparr>
      \<and> new_events w (snd (handleEmailSignup ev email password fullName w)) = [ProfilesQuery email])
   \<and> (auth_getSession ev (trace w) = Returns (SdkResult (Some s) None)
       \<and> authMode_of (storage w ''oauth_mode'') = ''signup''
       \<and> profiles_maybeSingle ev
            (trace w @ [GetSession, GetItem ''oauth_mode'', RemoveItem ''oauth_mode''])
            (user_email s) = Returns (SdkResult (Some row) None) \<longrightarrow>
      fst (handleOAuthCallback ev w) =
        \<lparr>success = False,
         error = Some ''An account with this email already exists. Please log in instead.'',
         requiresVerification = None, data = None\<rparr>
      \<and> new_events w (snd (handleOAuthCallback ev w)) =
        [GetSession, GetItem ''oauth_mode'', RemoveItem ''oauth_mode'',
         ProfilesQuery (user_email s)])"
proof (intro conjI impI)
  assume "profiles_maybeSingle ev (trace w) email = Returns (SdkResult (Some row) None)"
  then have found: "profile_found (profiles_maybeSingle ev (trace w) email)"
    by (simp add: profile_found_def)
  then show "fst (handleEmailSignup ev email password fullName w) =
      \<lparr>success = False,
       error = Some ''An account with this email already exists. Please log in instead.'',
       requiresVerification = None, data = None\<rparr>"
    by (simp add: handleEmailSignup_def split_beta checkProfileExists_exists failure_def)
  from found show "new_events w (snd (handleEmailSignup ev email password fullName w)) =
      [ProfilesQuery email]"
    by (simp add: handleEmailSignup_def split_beta checkProfileExists_exists
        checkProfileExists_world emit_def new_events_def)
next
  assume a: "auth_getSession ev (trace w) = Returns (SdkResult (Some s) None)
       \<and> authMode_of (storage w ''oauth_mode'') = ''signup''
       \<and> profiles_maybeSingle ev
            (trace w @ [GetSession, GetItem ''oauth_mode'', RemoveItem ''oauth_mode''])
            (user_email s) = Returns (SdkResult (Some row) None)"
  then obtain r where r: "auth_getSession ev (trace w) = Returns r"
      "sdk_error r = None" "sdk_data r = Some s"
    by (auto dest: session_result)
  from a have found: "profile_found (profiles_maybeSingle ev (after_session w) (user_email s))"
    by (simp add: profile_found_def after_session_def)
  from a found show "fst (handleOAuthCallback ev w) =
      \<lparr>success = False,
       error = Some ''An account with this email already exists. Please log in instead.'',
       requiresVerification = None, data = None\<rparr>"
    by (simp add: callback_session [OF r] Let_def failure_def)
  from a found show "new_events w (snd (handleOAuthCallback ev w)) =
      [GetSession, GetItem ''oauth_mode'', RemoveItem ''oauth_mode'', ProfilesQuery (user_email s)]"
    by (simp add: callback_session [OF r] Let_def after_session_def)
qed

text \<open>Alice signs up again, by email and through OAuth, while her profile is found.\<close>

theorem signup_with_existing_profile_witness:
  "profiles_maybeSingle existing_env [] ''alice@example.com'' =
     Returns (SdkResult (Some alice_row) None)
   \<and> fst (handleEmailSignup existing_env ''alice@example.com'' ''pw'' ''Alice'' (page None)) =
     \<lparr>success = False,
      error = Some ''An account with this email already exists. Please log in instead.'',
      requiresVerification = None, data = None\<rparr>
   \<and> new_events (page None)
       (snd (handleEmailSignup existing_env ''alice@example.com'' ''pw'' ''Alice'' (page None))) =
     [ProfilesQuery ''alice@example.com'']
   \<and> fst (handleOAuthCallback existing_env (page (Some ''signup''))) =
     \<lparr>success = False,
      error = Some ''An account with this email already exists. Please log in instead.'',
      requiresVerification = None, data = None\<rparr>"
  using signup_with_existing_profile [of existing_env "page None" "''alice@example.com''" alice_row
      "''pw''" "''Alice''"]
    signup_with_existing_profile [of existing_env "page (Some ''signup'')" _ alice_row _ _ alice]
  by (simp add: existing_env_def quiet_env_def page_def alice_def authMode_of_def)

text \<open>
  Alice has a profile (a lookup that goes through returns her row), but the lookup of
  this sign-up rejects: \<open>handleEmailSignup\<close> takes the profile as absent, calls \<open>signUp\<close>
  and returns success.
\<close>

theorem existing_profile_lookup_fails_counterexample:
  "profiles_maybeSingle flaky_env [ProfilesQuery ''alice@example.com''] ''alice@example.com'' =
     Returns (SdkResult (Some alice_row) None)
   \<and> profiles_maybeSingle flaky_env [] ''alice@example.com'' = Throws ''Failed to fetch''
   \<and> fst (handleEmailSignup flaky_env ''alice@example.com'' ''pw'' ''Alice'' (page None)) =
     \<lparr>success = True, error = None, requiresVerification = Some True,
      data = Some (AuthPayload \<lparr>ad_user_id = Some ''u-1'', ad_session = None\<rparr>)\<rparr>
   \<and> new_events (page None)
       (snd (handleEmailSignup flaky_env ''alice@example.com'' ''pw'' ''Alice'' (page None))) =
     [ProfilesQuery ''alice@example.com'',
      SignUp ''alice@example.com'' ''pw'' ''Alice'' ''https://app.example/auth/callback'']"
  by (simp add: handleEmailSignup_def checkProfileExists_def Let_def emit_def new_events_def
      flaky_env_def quiet_env_def page_def)

section \<open>The storage flag\<close>

lemma storage_handleGoogleOAuth:
  "storage_accesses (new_events w (snd (handleGoogleOAuth ev mode w))) =
     (if success (fst (handleGoogleOAuth ev mode w)) then [SetItem ''oauth_mode'' (mode_string mode)]
      else [SetItem ''oauth_mode'' (mode_string mode), RemoveItem ''oauth_mode''])
   \<and> storage (snd (handleGoogleOAuth ev mode w)) =
     (if success (fst (handleGoogleOAuth ev mode w)) then (storage w)(''oauth_mode'' \<mapsto> mode_string mode)
      else (storage w)(''oauth_mode'' := None))"
  by (simp add: handleGoogleOAuth_def Let_def world_ops new_events_def storage_accesses_def
      failure_def succeeded_def split: outcome.split option.split)

lemma storage_handleSignOut:
  "storage_accesses (new_events w (snd (handleSignOut ev w))) =
     (if success (fst (handleSignOut ev w)) then [RemoveItem ''oauth_mode''] else [])
   \<and> storage (snd (handleSignOut ev w)) =
     (if success (fst (handleSignOut ev w)) then (storage w)(''oauth_mode'' := None) else storage w)"
  by (simp add: handleSignOut_def Let_def world_ops new_events_def storage_accesses_def
      failure_def succeeded_def split: outcome.split option.split)

lemma storage_handleEmailLogin:
  "storage_accesses (new_events w (snd (handleEmailLogin ev email password w))) = []
   \<and> storage (snd (handleEmailLogin ev email password w)) = storage w"
  by (simp add: handleEmailLogin_def Let_def world_ops new_events_def storage_accesses_def
      split: outcome.split option.split)

lemma storage_resendVerificationEmail:
  "storage_accesses (new_events w (snd (resendVerificationEmail ev email w))) = []
   \<and> storage (snd (resendVerificationEmail ev email w)) = storage w"
  by (simp add: resendVerificationEmail_def Let_def world_ops new_events_def storage_accesses_def
      split: outcome.split option.split)

lemma storage_checkProfileExists:
  "storage_accesses (new_events w (snd (checkProfileExists ev email w))) = []
   \<and> storage (snd (checkProfileExists ev email w)) = storage w"
  by (simp add: checkProfileExists_world emit_def new_events_def storage_accesses_def)

lemma storage_handleEmailSignup:
  "storage_accesses (new_events w (snd (handleEmailSignup ev email password fullName w))) = []
   \<and> storage (snd (handleEmailSignup ev email password fullName w)) = storage w"
  by (simp add: handleEmailSignup_def Let_def split_beta checkProfileExists_world emit_def
      new_events_def storage_accesses_def split: outcome.split option.split)

lemma storage_callback_session_list:
  assumes "auth_getSession ev (trace w) = Returns r" "sdk_error r = None" "sdk_data r = Some s"
  shows "\<exists>rest. storage_accesses (new_events w (snd (handleOAuthCallback ev w))) =
            GetItem ''oauth_mode'' # RemoveItem ''oauth_mode'' # rest
          \<and> (rest = [] \<or> rest = [RemoveItem ''oauth_mode''])"
  by (simp add: callback_session [OF assms] Let_def after_session_def storage_accesses_def
      split: outcome.split)

lemma storage_callback_session:
  assumes "auth_getSession ev (trace w) = Returns r" "sdk_error r = None" "sdk_data r = Some s"
  shows "take 2 (storage_accesses (new_events w (snd (handleOAuthCallback ev w)))) =
           [GetItem ''oauth_mode'', RemoveItem ''oauth_mode'']
         \<and> set (storage_accesses (new_events w (snd (handleOAuthCallback ev w))))
             \<subseteq> {GetItem ''oauth_mode'', RemoveItem ''oauth_mode''}
         \<and> storage (snd (handleOAuthCallback ev w)) = (storage w)(''oauth_mode'' := None)"
proof -
  have "storage (snd (handleOAuthCallback ev w)) = (storage w)(''oauth_mode'' := None)"
    by (simp add: callback_session [OF assms] Let_def split: outcome.split)
  with storage_callback_session_list [OF assms] show ?thesis
    by auto
qed

lemma storage_handleOAuthCallback:
  "set (storage_accesses (new_events w (snd (handleOAuthCallback ev w))))
     \<subseteq> {GetItem ''oauth_mode'', RemoveItem ''oauth_mode''}
   \<and> (storage (snd (handleOAuthCallback ev w)))(''oauth_mode'' := None) =
       (storage w)(''oauth_mode'' := None)"
proof (cases "auth_getSession ev (trace w)")
  case (Throws m)
  then show ?thesis
    by (simp add: callback_throws storage_accesses_def)
next
  case (Returns r)
  show ?thesis
  proof (cases "sdk_error r")
    case (Some e)
    with Returns show ?thesis
      by (simp add: callback_error storage_accesses_def)
  next
    case None
    show ?thesis
    proof (cases "sdk_data r")
      case no: None
      with Returns None show ?thesis
        by (simp add: callback_no_session storage_accesses_def)
    next
      case (Some s)
      from storage_callback_session [OF Returns None Some] show ?thesis
        by simp
    qed
  qed
qed

text \<open>
  Claim C6, as amended. The operations of the auth service read and write no key of
  \<open>localStorage\<close> but \<open>oauth_mode\<close>. \<open>handleGoogleOAuth\<close> sets it to the given mode, and
  removes it again when the call fails. \<open>handleOAuthCallback\<close> only reads and removes it,
  and leaves every other key as it was; once \<open>getSession\<close> has returned a session it
  reads the flag, then removes it, and the flag is absent afterwards. \<open>handleSignOut\<close>
  removes it when the sign-out succeeds and does not touch storage when it fails.
  \<open>handleEmailLogin\<close>, \<open>handleEmailSignup\<close>, \<open>resendVerificationEmail\<close> and
  \<open>checkProfileExists\<close> do not touch storage at all.
\<close>

theorem only_oauth_mode_in_storage:
  "storage_accesses (new_events w (snd (handleGoogleOAuth ev mode w))) =
     (if success (fst (handleGoogleOAuth ev mode w)) then [SetItem ''oauth_mode'' (mode_string mode)]
      else [SetItem ''oauth_mode'' (mode_string mode), RemoveItem ''oauth_mode''])
   \<and> storage (snd (handleGoogleOAuth ev mode w)) =
     (if success (fst (handleGoogleOAuth ev mode w)) then (storage w)(''oauth_mode'' \<mapsto> mode_string mode)
      else (storage w)(''oauth_mode'' := None))
   \<and> set (storage_accesses (new_events w (snd (handleOAuthCallback ev w))))
       \<subseteq> {GetItem ''oauth_mode'', RemoveItem ''oauth_mode''}
   \<and> (storage (snd (handleOAuthCallback ev w)))(''oauth_mode'' := None) =
       (storage w)(''oauth_mode'' := None)
   \<and> (auth_getSession ev (trace w) = Returns (SdkResult (Some s) None) \<longrightarrow>
       take 2 (storage_accesses (new_events w (snd (handleOAuthCallback ev w)))) =
         [GetItem ''oauth_mode'', RemoveItem ''oauth_mode'']
       \<and> storage (snd (handleOAuthCallback ev w)) = (storage w)(''oauth_mode'' := None))
   \<and> storage_accesses (new_events w (snd (handleSignOut ev w))) =
     (if success (fst (handleSignOut ev w)) then [RemoveItem ''oauth_mode''] else [])
   \<and> storage (snd (handleSignOut ev w)) =
     (if success (fst (handleSignOut ev w)) then (storage w)(''oauth_mode'' := None) else storage w)
   \<and> storage_accesses (new_events w (snd (handleEmailLogin ev email password w))) = []
   \<and> storage (snd (handleEmailLogin ev email password w)) = storage w
   \<and> storage_accesses (new_events w (snd (handleEmailSignup ev email password fullName w))) = []
   \<and> storage (snd (handleEmailSignup ev email password fullName w)) = storage w
   \<and> storage_accesses (new_events w (snd (resendVerificationEmail ev email w))) = []
   \<and> storage (snd (resendVerificationEmail ev email w)) = storage w
   \<and> storage_accesses (new_events w (snd (checkProfileExists ev email w))) = []
   \<and> storage (snd (checkProfileExists ev email w)) = storage w"
proof -
  have session: "auth_getSession ev (trace w) = Returns (SdkResult (Some s) None) \<longrightarrow>
       take 2 (storage_accesses (new_events w (snd (handleOAuthCallback ev w)))) =
         [GetItem ''oauth_mode'', RemoveItem ''oauth_mode'']
       \<and> storage (snd (handleOAuthCallback ev w)) = (storage w)(''oauth_mode'' := None)"
  proof
    assume "auth_getSession ev (trace w) = Returns (SdkResult (Some s) None)"
    then obtain r where "auth_getSession ev (trace w) = Returns r"
        "sdk_error r = None" "sdk_data r = Some s"
      by (auto dest: session_result)
    from storage_callback_session [OF this]
    show "take 2 (storage_accesses (new_events w (snd (handleOAuthCallback ev w)))) =
         [GetItem ''oauth_mode'', RemoveItem ''oauth_mode'']
       \<and> storage (snd (handleOAuthCallback ev w)) = (storage w)(''oauth_mode'' := None)"
      by simp
  qed
  note parts = storage_handleGoogleOAuth [of w ev mode] storage_handleOAuthCallback [of w ev]
    storage_handleSignOut [of w ev] storage_handleEmailLogin [of w ev email password]
    storage_handleEmailSignup [of w ev email password fullName]
    storage_resendVerificationEmail [of w ev email] storage_checkProfileExists [of w ev email]
  from session parts show ?thesis
    by blast
qed

text \<open>A successful sign-out and a callback with a session, on a page that holds the flag.\<close>

theorem only_oauth_mode_in_storage_witness:
  "storage_accesses (new_events (page (Some ''signup'')) (snd (handleSignOut quiet_env (page (Some ''signup''))))) =
     [RemoveItem ''oauth_mode'']
   \<and> storage (snd (handleSignOut quiet_env (page (Some ''signup'')))) ''oauth_mode'' = None
   \<and> storage (snd (handleOAuthCallback quiet_env (page (Some ''signup'')))) ''oauth_mode'' = None"
  using only_oauth_mode_in_storage [of "page (Some ''signup'')" quiet_env _ alice]
  by (simp add: handleSignOut_def quiet_env_def succeeded_def)

text \<open>
  A sign-out that fails and a callback whose \<open>getSession\<close> returns an error: neither
  touches storage, and the flag is still there afterwards.
\<close>

theorem flag_kept_counterexample:
  "storage_accesses (new_events (page (Some ''signup''))
       (snd (handleSignOut signout_error_env (page (Some ''signup''))))) = []
   \<and> storage (snd (handleSignOut signout_error_env (page (Some ''signup'')))) ''oauth_mode'' = Some ''signup''
   \<and> storage_accesses (new_events (page (Some ''signup''))
       (snd (handleOAuthCallback session_error_env (page (Some ''signup''))))) = []
   \<and> storage (snd (handleOAuthCallback session_error_env (page (Some ''signup'')))) ''oauth_mode'' =
       Some ''signup''"
proof -
  have err: "auth_getSession session_error_env (trace (page (Some ''signup''))) =
      Returns (SdkResult None (Some ''invalid JWT''))"
    by (simp add: session_error_env_def quiet_env_def)
  have "handleOAuthCallback session_error_env (page (Some ''signup'')) =
      (failure ''invalid JWT'', (page (Some ''signup''))\<lparr>trace := trace (page (Some ''signup'')) @ [GetSession]\<rparr>)"
    by (rule callback_error [OF err]) simp
  moreover have "snd (handleSignOut signout_error_env (page (Some ''signup''))) =
      (page (Some ''signup''))\<lparr>trace := [SignOut]\<rparr>"
    by (simp add: handleSignOut_def signout_error_env_def quiet_env_def emit_def page_def)
  ultimately show ?thesis
    by (simp add: storage_accesses_def new_events_def page_def)
qed

section \<open>Environment validation: validity, errors and configuration\<close>

lemma validateEnvironment_errors:
  "errors (validateEnvironment me) =
     (if \<not> truthy (VITE_SUPABASE_URL me)
      then [''VITE_SUPABASE_URL is not set in environment variables''] else [])
     @ (if \<not> truthy (VITE_SUPABASE_ANON_KEY me)
        then [''VITE_SUPABASE_ANON_KEY is not set in environment variables''] else [])
     @ (if truthy (VITE_SUPABASE_URL me) \<and> \<not> startsWith (the (VITE_SUPABASE_URL me)) ''https://''
        then [''VITE_SUPABASE_URL must start with https://''] else [])"
  by (simp add: validateEnvironment_def Let_def)

lemma validateEnvironment_valid: "valid (validateEnvironment me) = (errors (validateEnvironment me) = [])"
  by (simp add: validateEnvironment_def Let_def)

lemma validateEnvironment_config:
  "(config (validateEnvironment me) \<noteq> None) = valid (validateEnvironment me)"
  by (simp add: validateEnvironment_def Let_def)

text \<open>
  Claim C7. \<open>validateEnvironment\<close> returns \<open>valid = true\<close> if and only if its list of errors
  is empty. Each of the three messages is in the list exactly under its condition: the
  URL is not set, the key is not set, the URL is set and does not start with \<open>https://\<close>;
  and the list holds nothing else. Not set is the test \<open>!x\<close> of the source, which the
  undefined variable and the empty string pass. The \<open>config\<close> field is present exactly
  when \<open>valid\<close> is true.
\<close>

theorem validateEnvironment_valid_iff_no_errors:
  "valid (validateEnvironment me) = (errors (validateEnvironment me) = [])
   \<and> (''VITE_SUPABASE_URL is not set in environment variables'' \<in> set (errors (validateEnvironment me)))
       = (\<not> truthy (VITE_SUPABASE_URL me))
   \<and> (''VITE_SUPABASE_ANON_KEY is not set in environment variables'' \<in> set (errors (validateEnvironment me)))
       = (\<not> truthy (VITE_SUPABASE_ANON_KEY me))
   \<and> (''VITE_SUPABASE_URL must start with https://'' \<in> set (errors (validateEnvironment me)))
       = (truthy (VITE_SUPABASE_URL me) \<and> \<not> startsWith (the (VITE_SUPABASE_URL me)) ''https://'')
   \<and> set (errors (validateEnvironment me)) \<subseteq>
       {''VITE_SUPABASE_URL is not set in environment variables'',
        ''VITE_SUPABASE_ANON_KEY is not set in environment variables'',
        ''VITE_SUPABASE_URL must start with https://''}
   \<and> (errors (validateEnvironment me) = []) =
       (truthy (VITE_SUPABASE_URL me) \<and> truthy (VITE_SUPABASE_ANON_KEY me)
        \<and> startsWith (the (VITE_SUPABASE_URL me)) ''https://'')
   \<and> (config (validateEnvironment me) \<noteq> None) = valid (validateEnvironment me)"
proof -
  have "(errors (validateEnvironment me) = []) =
       (truthy (VITE_SUPABASE_URL me) \<and> truthy (VITE_SUPABASE_ANON_KEY me)
        \<and> startsWith (the (VITE_SUPABASE_URL me)) ''https://'')"
    unfolding validateEnvironment_errors by auto
  moreover have "set (errors (validateEnvironment me)) \<subseteq>
       {''VITE_SUPABASE_URL is not set in environment variables'',
        ''VITE_SUPABASE_ANON_KEY is not set in environment variables'',
        ''VITE_SUPABASE_URL must start with https://''}"
    unfolding validateEnvironment_errors by auto
  moreover have "(''VITE_SUPABASE_URL is not set in environment variables'' \<in> set (errors (validateEnvironment me)))
       = (\<not> truthy (VITE_SUPABASE_URL me))"
    unfolding validateEnvironment_errors by simp
  moreover have "(''VITE_SUPABASE_ANON_KEY is not set in environment variables'' \<in> set (errors (validateEnvironment me)))
       = (\<not> truthy (VITE_SUPABASE_ANON_KEY me))"
    unfolding validateEnvironment_errors by simp
  moreover have "(''VITE_SUPABASE_URL must start with https://'' \<in> set (errors (validateEnvironment me)))
       = (truthy (VITE_SUPABASE_URL me) \<and> \<not> startsWith (the (VITE_SUPABASE_URL me)) ''https://'')"
    unfolding validateEnvironment_errors by simp
  ultimately show ?thesis
    using validateEnvironment_valid [of me] validateEnvironment_config [of me] by blast
qed

text \<open>A complete environment is valid and has a configuration; one with an \<open>http\<close> URL and
  one with an empty key are not.\<close>

theorem validateEnvironment_valid_iff_no_errors_witness:
  "valid (validateEnvironment good_meta_env)
   \<and> config (validateEnvironment good_meta_env) \<noteq> None
   \<and> \<not> valid (validateEnvironment http_meta_env)
   \<and> config (validateEnvironment http_meta_env) = None
   \<and> \<not> valid (validateEnvironment empty_key_meta_env)"
proof -
  have good: "truthy (VITE_SUPABASE_URL good_meta_env) \<and> truthy (VITE_SUPABASE_ANON_KEY good_meta_env)
      \<and> startsWith (the (VITE_SUPABASE_URL good_meta_env)) ''https://''"
    by (simp add: good_meta_env_def truthy_def)
  have http: "\<not> startsWith (the (VITE_SUPABASE_URL http_meta_env)) ''https://''"
    by (simp add: http_meta_env_def good_meta_env_def)
  have empty: "\<not> truthy (VITE_SUPABASE_ANON_KEY empty_key_meta_env)"
    by (simp add: empty_key_meta_env_def good_meta_env_def truthy_def)
  from good validateEnvironment_valid_iff_no_errors [of good_meta_env]
  have "valid (validateEnvironment good_meta_env) \<and> config (validateEnvironment good_meta_env) \<noteq> None"
    by blast
  moreover from http validateEnvironment_valid_iff_no_errors [of http_meta_env]
  have "\<not> valid (validateEnvironment http_meta_env) \<and> config (validateEnvironment http_meta_env) = None"
    by blast
  moreover from empty validateEnvironment_valid_iff_no_errors [of empty_key_meta_env]
  have "\<not> valid (validateEnvironment empty_key_meta_env)"
    by blast
  ultimately show ?thesis
    by blast
qed

section \<open>The upload path\<close>

lemma in_class_iff:
  "in_class c = (c \<in> {0x61..0x7A} \<union> {0x41..0x5A} \<union> {0x30..0x39} \<union> {0x5F, 0x2E, 0x2D})"
  by (auto simp: in_class_def Let_def word_le_nat_alt word_unat_eq_iff)

lemma unat_digit:
  assumes "d < 10"
  shows "unat (digit d) = 48 + d"
proof -
  have "unat (digit d) = (48 + d) mod 2 ^ LENGTH(16)"
    unfolding digit_def by (rule unat_of_nat)
  also have "\<dots> = 48 + d"
    using assms by simp
  finally show ?thesis .
qed

lemma digit_decimal: "d < 10 \<Longrightarrow> digit d \<in> {0x30..0x39}"
  by (simp add: word_le_nat_alt unat_digit)

lemma digit_zero_iff: "d < 10 \<Longrightarrow> (digit d = 0x30) = (d = 0)"
  by (simp add: word_unat_eq_iff unat_digit)

lemma digits_nonempty: "digits n \<noteq> []"
  by (subst digits.simps) simp

lemma digits_decimal: "list_all (\<lambda>c. c \<in> {0x30..0x39}) (digits n)"
proof (induction n rule: digits.induct)
  case (1 n)
  show ?case
  proof (cases "n < 10")
    case True
    with digit_decimal [of n] show ?thesis
      by (subst digits.simps) simp
  next
    case False
    with 1 have "list_all (\<lambda>c. c \<in> {0x30..0x39}) (digits (n div 10))"
      by simp
    moreover have "digit (n mod 10) \<in> {0x30..0x39}"
      by (rule digit_decimal) simp
    ultimately show ?thesis
      using False by (subst digits.simps) simp
  qed
qed

lemma digits_value: "foldl (\<lambda>a c. 10 * a + (unat c - 48)) 0 (digits n) = n"
proof (induction n rule: digits.induct)
  case (1 n)
  show ?case
  proof (cases "n < 10")
    case True
    then show ?thesis
      by (subst digits.simps) (simp add: unat_digit)
  next
    case False
    with 1 have "foldl (\<lambda>a c. 10 * a + (unat c - 48)) 0 (digits (n div 10)) = n div 10"
      by simp
    then show ?thesis
      using False by (subst digits.simps) (simp add: unat_digit)
  qed
qed

lemma digits_no_leading_zero: "hd (digits n) \<noteq> 0x30 \<or> digits n = [0x30]"
proof (cases "n < 10")
  case True
  then show ?thesis
    by (subst (1 2) digits.simps) (auto simp: digit_zero_iff digit_def)
next
  case False
  have "hd (digits m) = 0x30 \<Longrightarrow> m = 0" for m
  proof (induction m rule: digits.induct)
    case (1 m)
    show ?case
    proof (cases "m < 10")
      case True
      with 1(2) show ?thesis
        by (subst (asm) digits.simps) (simp add: digit_zero_iff)
    next
      case False
      with 1(2) have "hd (digits (m div 10)) = 0x30"
        by (subst (asm) digits.simps) (simp add: digits_nonempty)
      with 1(1) False have "m div 10 = 0"
        by simp
      with False show ?thesis
        by simp
    qed
  qed
  from this [of n] False show ?thesis
    by auto
qed

lemma number_to_string_split:
  "number_to_string t =
     (if ms_of t < 0 then [0x2D] else []) @ digits (nat \<bar>ms_of t\<bar>)"
  by (simp add: number_to_string_def Let_def)

lemma sanitize_map:
  "sanitize cs =
     map (\<lambda>c. if c \<in> {0x61..0x7A} \<union> {0x41..0x5A} \<union> {0x30..0x39} \<union> {0x5F, 0x2E, 0x2D}
               then c else 0x5F) cs"
  by (induction cs) (simp_all only: sanitize.simps list.map in_class_iff)

lemma upload_calls:
  "snd (uploadCertificationAsset sv file certificationId) =
     [\<lparr>uc_bucket = BUCKET,
       uc_path = certificationId @ js ''/'' @ number_to_string (now sv) @ js ''_''
                   @ sanitize (file_name file),
       uc_file = file, uc_upsert = True,
       uc_contentType = (if file_type file = [] then None else Some (file_type file))\<rparr>]"
  by (simp add: uploadCertificationAsset_def Let_def split: outcome.split upload_response.split)

lemma upload_path:
  "map uc_path (snd (uploadCertificationAsset sv file certificationId)) =
     [certificationId @ [0x2F] @ (if ms_of (now sv) < 0 then [0x2D] else [])
        @ digits (nat \<bar>ms_of (now sv)\<bar>) @ [0x5F] @ sanitize (file_name file)]"
  by (simp add: upload_calls number_to_string_split js_def)

lemma path_tail_in_class:
  "list_all (\<lambda>c. c \<in> {0x61..0x7A} \<union> {0x41..0x5A} \<union> {0x30..0x39} \<union> {0x5F, 0x2E, 0x2D} \<union> {0x2F})
     ([0x2F] @ (if i < 0 then [0x2D] else []) @ digits n @ [0x5F] @ sanitize cs)"
proof -
  have "list_all (\<lambda>c. c \<in> {0x61..0x7A} \<union> {0x41..0x5A} \<union> {0x30..0x39} \<union> {0x5F, 0x2E, 0x2D} \<union> {0x2F})
      (digits n)"
    using digits_decimal [of n] by (auto simp: list_all_iff)
  moreover have "list_all (\<lambda>c. c \<in> {0x61..0x7A} \<union> {0x41..0x5A} \<union> {0x30..0x39} \<union> {0x5F, 0x2E, 0x2D} \<union> {0x2F})
      (sanitize cs)"
    unfolding sanitize_map by (induction cs) auto
  ultimately show ?thesis
    by auto
qed

text \<open>
  Claim C8. \<open>uploadCertificationAsset\<close> makes one upload call, and its path is the
  certification id, \<open>/\<close> (0x2F), the timestamp, \<open>_\<close> (0x5F) and the sanitized file name.
  The timestamp is the clock value in decimal: a minus sign (0x2D) when it is negative,
  then digits \<open>0\<close> to \<open>9\<close> (0x30 to 0x39) with no leading zero whose value is the magnitude
  of the clock value. The sanitized name is the file name with every code unit outside
  \<open>a-z\<close> (0x61 to 0x7A), \<open>A-Z\<close> (0x41 to 0x5A), \<open>0-9\<close>, \<open>_\<close>, \<open>.\<close> (0x2E) and \<open>-\<close> replaced by
  \<open>_\<close> and the others kept. So the path after the certification id holds only code
  units of that class and the separating \<open>/\<close>.
\<close>

theorem upload_path_sanitized:
  "\<exists>ds. map uc_path (snd (uploadCertificationAsset sv file certificationId)) =
          [certificationId @ [0x2F] @ (if ms_of (now sv) < 0 then [0x2D] else []) @ ds @ [0x5F]
             @ map (\<lambda>c. if c \<in> {0x61..0x7A} \<union> {0x41..0x5A} \<union> {0x30..0x39} \<union> {0x5F, 0x2E, 0x2D}
                       then c else 0x5F) (file_name file)]
        \<and> ds \<noteq> []
        \<and> list_all (\<lambda>c. c \<in> {0x30..0x39}) ds
        \<and> (hd ds \<noteq> 0x30 \<or> ds = [0x30])
        \<and> foldl (\<lambda>a c. 10 * a + (unat c - 48)) 0 ds = nat \<bar>ms_of (now sv)\<bar>
        \<and> list_all (\<lambda>call. list_all
                (\<lambda>c. c \<in> {0x61..0x7A} \<union> {0x41..0x5A} \<union> {0x30..0x39} \<union> {0x5F, 0x2E, 0x2D} \<union> {0x2F})
                (drop (length certificationId) (uc_path call)))
             (snd (uploadCertificationAsset sv file certificationId))"
proof (intro exI conjI)
  show "map uc_path (snd (uploadCertificationAsset sv file certificationId)) =
          [certificationId @ [0x2F] @ (if ms_of (now sv) < 0 then [0x2D] else [])
             @ digits (nat \<bar>ms_of (now sv)\<bar>) @ [0x5F]
             @ map (\<lambda>c. if c \<in> {0x61..0x7A} \<union> {0x41..0x5A} \<union> {0x30..0x39} \<union> {0x5F, 0x2E, 0x2D}
                       then c else 0x5F) (file_name file)]"
    by (simp only: upload_path sanitize_map)
  show "digits (nat \<bar>ms_of (now sv)\<bar>) \<noteq> []"
    by (rule digits_nonempty)
  show "list_all (\<lambda>c. c \<in> {0x30..0x39}) (digits (nat \<bar>ms_of (now sv)\<bar>))"
    by (rule digits_decimal)
  show "hd (digits (nat \<bar>ms_of (now sv)\<bar>)) \<noteq> 0x30 \<or> digits (nat \<bar>ms_of (now sv)\<bar>) = [0x30]"
    by (rule digits_no_leading_zero)
  show "foldl (\<lambda>a c. 10 * a + (unat c - 48)) 0 (digits (nat \<bar>ms_of (now sv)\<bar>)) = nat \<bar>ms_of (now sv)\<bar>"
    by (rule digits_value)
  show "list_all (\<lambda>call. list_all
                (\<lambda>c. c \<in> {0x61..0x7A} \<union> {0x41..0x5A} \<union> {0x30..0x39} \<union> {0x5F, 0x2E, 0x2D} \<union> {0x2F})
                (drop (length certificationId) (uc_path call)))
             (snd (uploadCertificationAsset sv file certificationId))"
    using path_tail_in_class [of "ms_of (now sv)" "nat \<bar>ms_of (now sv)\<bar>" "file_name file"]
    by (simp add: upload_calls number_to_string_split js_def)
qed

text \<open>
  The file \<open>odd_file\<close> for the certification \<open>c7\<close> at the clock value 1700000000000: the path
  is \<open>c7/1700000000000_a______-_.Z9\<close>.
\<close>

theorem upload_path_sanitized_witness:
  "map uc_path (snd (uploadCertificationAsset accepting_storage odd_file c7)) =
     [[0x63, 0x37, 0x2F,
       0x31, 0x37, 0x30, 0x30, 0x30, 0x30, 0x30, 0x30, 0x30, 0x30, 0x30, 0x30, 0x30,
       0x5F,
       0x61, 0x5F, 0x5F, 0x5F, 0x5F, 0x5F, 0x5F, 0x2D, 0x5F, 0x2E, 0x5A, 0x39]]"
proof -
  have clock: "ms_of (now accepting_storage) = 1700000000000"
    by (simp add: accepting_storage_def time_value_of_inverse)
  have d: "digits 1700000000000 =
      [0x31, 0x37, 0x30, 0x30, 0x30, 0x30, 0x30, 0x30, 0x30, 0x30, 0x30, 0x30, 0x30]"
    by (simp add: digits.simps digit_def)
  from upload_path_sanitized [of accepting_storage odd_file c7]
  obtain ds where path: "map uc_path (snd (uploadCertificationAsset accepting_storage odd_file c7)) =
          [c7 @ [0x2F] @ (if ms_of (now accepting_storage) < 0 then [0x2D] else []) @ ds @ [0x5F]
             @ map (\<lambda>c. if c \<in> {0x61..0x7A} \<union> {0x41..0x5A} \<union> {0x30..0x39} \<union> {0x5F, 0x2E, 0x2D}
                       then c else 0x5F) (file_name odd_file)]"
    by (elim exE conjE) (rule that)
  have "ds = digits 1700000000000"
    using path by (simp add: upload_path clock sanitize_map)
  with path show ?thesis
    by (simp add: clock d c7_def odd_file_def word_le_nat_alt)
qed

section \<open>The result of an upload\<close>

lemma upload_result:
  "fst (uploadCertificationAsset sv file certificationId) =
     (case storage_upload sv (hd (snd (uploadCertificationAsset sv file certificationId))) of
        Throws m \<Rightarrow> Throws m
      | Returns (UploadError e) \<Rightarrow> Returns \<lparr>url = None, upload_error = Some e\<rparr>
      | Returns (UploadData p) \<Rightarrow>
          Returns \<lparr>url = Some (storage_getPublicUrl sv BUCKET p), upload_error = None\<rparr>)"
  unfolding upload_calls
  by (simp add: uploadCertificationAsset_def Let_def split: outcome.split upload_response.split)

text \<open>
  Claim C9, as amended. The outcome of \<open>uploadCertificationAsset\<close> follows the outcome of
  the upload call: a returned error gives the result with that error and \<open>url = null\<close>, a
  returned path gives the result with the public URL of that path and \<open>error = null\<close>, and
  a rejection of the call rejects the function. So every result that is returned has
  exactly one of \<open>url\<close> and \<open>error\<close> null, and a result is returned whenever the upload call
  does not reject.
\<close>

theorem upload_result_one_null:
  "fst (uploadCertificationAsset sv file certificationId) =
     (case storage_upload sv (hd (snd (uploadCertificationAsset sv file certificationId))) of
        Throws m \<Rightarrow> Throws m
      | Returns (UploadError e) \<Rightarrow> Returns \<lparr>url = None, upload_error = Some e\<rparr>
      | Returns (UploadData p) \<Rightarrow>
          Returns \<lparr>url = Some (storage_getPublicUrl sv BUCKET p), upload_error = None\<rparr>)
   \<and> (\<forall>r. fst (uploadCertificationAsset sv file certificationId) = Returns r \<longrightarrow>
          (url r = None) \<noteq> (upload_error r = None))
   \<and> ((\<exists>m. storage_upload sv (hd (snd (uploadCertificationAsset sv file certificationId))) = Throws m)
        \<or> (\<exists>r. fst (uploadCertificationAsset sv file certificationId) = Returns r))"
proof (cases "storage_upload sv (hd (snd (uploadCertificationAsset sv file certificationId)))")
  case (Throws m)
  then show ?thesis
    by (simp add: upload_result)
next
  case (Returns resp)
  then show ?thesis
    by (cases resp) (simp_all add: upload_result)
qed

text \<open>An accepted and a refused upload.\<close>

theorem upload_result_one_null_witness:
  "fst (uploadCertificationAsset accepting_storage scan (js ''c42'')) =
     Returns \<lparr>url = Some (js ''https://cdn.example/cert-assets/c42/1700000000000_my_cert__1_.pdf''),
              upload_error = None\<rparr>
   \<and> fst (uploadCertificationAsset refusing_storage scan (js ''c42'')) =
     Returns \<lparr>url = None, upload_error = Some (StorageError (js ''Payload too large''))\<rparr>"
  using upload_result_one_null [of accepting_storage scan "js ''c42''"]
    upload_result_one_null [of refusing_storage scan "js ''c42''"]
  unfolding upload_calls
  by (simp add: accepting_storage_def refusing_storage_def scan_def js_def BUCKET_def
      number_to_string_def time_value_of_inverse digits.simps digit_def in_class_def)

text \<open>The upload call rejects: the function rejects with it and returns no result.\<close>

theorem upload_rejects_counterexample:
  "fst (uploadCertificationAsset rejecting_storage scan (js ''c42'')) = Throws ''Failed to fetch''"
  by (simp add: uploadCertificationAsset_def Let_def rejecting_storage_def accepting_storage_def)

section \<open>The reCAPTCHA hook before the script has loaded\<close>

text \<open>
  Claim C10. While the \<open>loaded\<close> state of the hook is false, \<open>executeRecaptcha\<close> rejects with
  the message \<open>reCAPTCHA not loaded yet\<close>, makes no call to \<open>grecaptcha.execute\<close> and leaves
  the hook state as it is.
\<close>

theorem executeRecaptcha_not_loaded:
  assumes "\<not> loaded st"
  shows "executeRecaptcha rv siteKey st action = (Throws ''reCAPTCHA not loaded yet'', st, [])"
  using assms by (simp add: executeRecaptcha_def)

theorem executeRecaptcha_not_loaded_witness:
  "\<not> loaded initial_hook_state
   \<and> executeRecaptcha answering_recaptcha ''site-key'' initial_hook_state ''submit'' =
       (Throws ''reCAPTCHA not loaded yet'', initial_hook_state, [])"
proof -
  have "\<not> loaded initial_hook_state"
    by (simp add: initial_hook_state_def)
  with executeRecaptcha_not_loaded [of initial_hook_state answering_recaptcha "''site-key''" "''submit''"]
  show ?thesis by simp
qed

end
